theory Spec2Isabelle
  imports Main "HOL-Library.Sublist"
begin

section \<open>Values shared by the client code\<close>

text \<open>
  The program is the browser client \<^verbatim>\<open>index.tsx\<close> (the current revision) and an
  earlier revision of the same file whose last pipeline step is a grid layout call.
  A rejected promise or a thrown \<^verbatim>\<open>Error\<close> is the value \<open>Rejected msg\<close>, a fulfilled
  promise is \<open>Resolved v\<close>.

  A text that the program examines character by character, the narration text, is a
  \<open>jsString\<close>: the list of its UTF-16 code units, as JavaScript has it, each code unit
  an integer from 0 to 65535. The other
  strings (prompts, messages, URLs, header values) are only compared with, searched for
  and joined to literals of ASCII characters, and are modelled as \<^typ>\<open>string\<close>.
\<close>

type_synonym jsString = "int list"

datatype 'a outcome = Resolved 'a | Rejected string

record imageData =
  base64 :: string
  mimeType :: string

datatype part = TextPart string | InlinePart imageData

text \<open>A response of \<^verbatim>\<open>ai.models.generateContent\<close>: the candidates, each with the
  parts of its content.\<close>

type_synonym genResponse = "part list list"

record speechLine =
  who :: string
  text' :: jsString

record panel =
  pid :: string
  prompt :: string
  speech :: "speechLine list"

record storyboard =
  title :: string
  panels :: "panel list"

text \<open>Every remote call the client issues, in the order of issue.\<close>

datatype request =
    GenerateImage string "part list"
  | GenerateStoryboard string string
  | FetchTts jsString
  | FetchGrid "string list" nat

text \<open>The reply to a \<^verbatim>\<open>fetch\<close>: a network failure, or a response with its status,
  its content-type header and its body. Reading the body of a response that has arrived
  (\<^verbatim>\<open>r.text()\<close>, \<^verbatim>\<open>r.blob()\<close>) is taken to succeed.\<close>

datatype fetchReply = NetworkError string | HttpResponse nat "string option" string

text \<open>The reply of the grid proxy: a network failure, or a response with its status and
  what \<^verbatim>\<open>r.json()\<close> gives for its body: a rejection, or the \<^verbatim>\<open>url\<close> fields of
  \<^verbatim>\<open>result.images\<close> (none when the body has no such array).\<close>

datatype gridReply = GridNetworkError string | GridResponse nat "string option list outcome"

text \<open>
  The log of a run: every remote call at the moment it is issued, and every write of a
  panel image into the application state, in the order in which they happen.
\<close>

datatype logEntry = Call request | Stored nat imageData

text \<open>
  The remote services, \<^verbatim>\<open>JSON.parse\<close> and the imported prompt templates are
  parameters. A reply may depend on the log before the request and on the request
  itself. A planning reply that parses is taken to have the shape of the response
  schema: a title and panels, each with an id, a prompt and speech lines.
\<close>

record env =
  generateContent :: "logEntry list \<Rightarrow> request \<Rightarrow> genResponse outcome"
  generateText :: "logEntry list \<Rightarrow> request \<Rightarrow> string outcome"
  jsonParse :: "string \<Rightarrow> storyboard option"
  fetchTts :: "logEntry list \<Rightarrow> jsString \<Rightarrow> fetchReply"
  fetchGrid :: "logEntry list \<Rightarrow> string list \<Rightarrow> nat \<Rightarrow> gridReply"
  CHARACTER_GENERATION_PROMPT :: "string \<Rightarrow> string \<Rightarrow> string"
  STORYBOARD_SYSTEM_INSTRUCTION :: "nat \<Rightarrow> string"
  PANEL_RENDERING_PROMPT :: "string \<Rightarrow> string \<Rightarrow> string"

text \<open>
  Issuing a remote call: the request is entered in the log, and the reply is the one
  the environment gives to this request after the log so far. Every client function
  below takes the log before its calls and returns the log after them beside its
  result; it reads no reply but through these four.
\<close>

definition callGenerateContent ::
  "env \<Rightarrow> request \<Rightarrow> logEntry list \<Rightarrow> logEntry list \<times> genResponse outcome" where
  "callGenerateContent E q h = (h @ [Call q], generateContent E h q)"

definition callGenerateText ::
  "env \<Rightarrow> request \<Rightarrow> logEntry list \<Rightarrow> logEntry list \<times> string outcome" where
  "callGenerateText E q h = (h @ [Call q], generateText E h q)"

definition callFetchTts ::
  "env \<Rightarrow> jsString \<Rightarrow> logEntry list \<Rightarrow> logEntry list \<times> fetchReply" where
  "callFetchTts E txt h = (h @ [Call (FetchTts txt)], fetchTts E h txt)"

definition callFetchGrid ::
  "env \<Rightarrow> string list \<Rightarrow> nat \<Rightarrow> logEntry list \<Rightarrow> logEntry list \<times> gridReply" where
  "callFetchGrid E urls cols h = (h @ [Call (FetchGrid urls cols)], fetchGrid E h urls cols)"

subsection \<open>String helpers of the JavaScript library\<close>

text \<open>The code units of a literal of ASCII characters.\<close>

definition utf16 :: "string \<Rightarrow> jsString" where
  "utf16 s = map of_char s"

text \<open>
  \<^verbatim>\<open>String.prototype.trim\<close> removes the white space and the line terminators of
  ECMAScript from both ends: U+0009 to U+000D, U+0020, U+00A0, U+1680, U+2000 to
  U+200A, U+2028, U+2029, U+202F, U+205F, U+3000 and U+FEFF.
\<close>

definition isSpace :: "int \<Rightarrow> bool" where
  "isSpace c =
     ((0x0009 \<le> c \<and> c \<le> 0x000D) \<or> c = 0x0020 \<or> c = 0x00A0 \<or> c = 0x1680
      \<or> (0x2000 \<le> c \<and> c \<le> 0x200A) \<or> c = 0x2028 \<or> c = 0x2029 \<or> c = 0x202F
      \<or> c = 0x205F \<or> c = 0x3000 \<or> c = 0xFEFF)"

definition trim :: "jsString \<Rightarrow> jsString" where
  "trim s = rev (dropWhile isSpace (rev (dropWhile isSpace s)))"

text \<open>\<^verbatim>\<open>s.includes(sub)\<close> and \<^verbatim>\<open>s.startsWith(p)\<close>.\<close>

fun strIncludes :: "string \<Rightarrow> string \<Rightarrow> bool" where
  "strIncludes [] sub = (sub = [])"
| "strIncludes (c # cs) sub = (prefix sub (c # cs) \<or> strIncludes cs sub)"

definition startsWith :: "string \<Rightarrow> string \<Rightarrow> bool" where
  "startsWith s p = prefix p s"

text \<open>\<^verbatim>\<open>xs.join(sep)\<close>.\<close>

fun join :: "'a list \<Rightarrow> 'a list list \<Rightarrow> 'a list" where
  "join sep [] = []"
| "join sep [x] = x"
| "join sep (x # y # ys) = x @ sep @ join sep (y # ys)"

text \<open>\<^verbatim>\<open>xs[i]\<close> on an array of nullable entries: \<^verbatim>\<open>undefined\<close> out of range, and
  \<^verbatim>\<open>undefined\<close> and \<^verbatim>\<open>null\<close> are both \<open>None\<close>.\<close>

definition at :: "'a option list \<Rightarrow> nat \<Rightarrow> 'a option" where
  "at xs i = (if i < length xs then xs ! i else None)"

text \<open>\<^verbatim>\<open>xs[i] = v\<close> on a copy of the array: an index past the end extends the array
  with empty slots.\<close>

definition setAt :: "'a option list \<Rightarrow> nat \<Rightarrow> 'a \<Rightarrow> 'a option list" where
  "setAt xs i v =
     (if i < length xs then xs[i := Some v]
      else xs @ replicate (i - length xs) None @ [Some v])"

text \<open>Decimal digits of a number, as a template literal prints it.\<close>

fun showNat :: "nat \<Rightarrow> string" where
  "showNat n =
     (if n < 10 then [char_of (48 + n)]
      else showNat (n div 10) @ [char_of (48 + n mod 10)])"

section \<open>Generation client\<close>

text \<open>\<^verbatim>\<open>response.candidates?.[0]?.content?.parts?.find(part => part.inlineData)\<close>\<close>

fun isInline :: "part \<Rightarrow> bool" where
  "isInline (InlinePart d) = True"
| "isInline (TextPart t) = False"

definition findImage :: "genResponse \<Rightarrow> imageData option" where
  "findImage r =
     (case r of
        [] \<Rightarrow> None
      | c # cs \<Rightarrow>
          (case List.find isInline c of
             Some (InlinePart d) \<Rightarrow> Some d
           | _ \<Rightarrow> None))"


definition imageModel :: string where
  "imageModel = ''gemini-2.5-flash-image-preview''"


text \<open>\<^verbatim>\<open>Promise.all\<close>: all values when every promise is fulfilled, else a rejection.
  The order in which promises settle is not modelled: the rejection reported is the one
  of the lowest index.\<close>

fun promiseAll :: "'a outcome list \<Rightarrow> 'a list outcome" where
  "promiseAll [] = Resolved []"
| "promiseAll (Rejected e # rs) = Rejected e"
| "promiseAll (Resolved v # rs) =
     (case promiseAll rs of Rejected e \<Rightarrow> Rejected e | Resolved vs \<Rightarrow> Resolved (v # vs))"




definition storyboardModel :: string where
  "storyboardModel = ''gemini-2.5-flash''"

definition planRequest :: "env \<Rightarrow> string \<Rightarrow> nat \<Rightarrow> request" where
  "planRequest E story panelCount =
     GenerateStoryboard (STORYBOARD_SYSTEM_INSTRUCTION E panelCount)
       (''Story seed: \"'' @ story @ ''\"'')"

definition planStoryboard ::
  "env \<Rightarrow> logEntry list \<Rightarrow> string \<Rightarrow> nat \<Rightarrow> logEntry list \<times> storyboard outcome" where
  "planStoryboard E h story panelCount =
     (case callGenerateText E (planRequest E story panelCount) h of
        (h', Rejected e) \<Rightarrow> (h', Rejected e)
      | (h', Resolved txt) \<Rightarrow>
          (h', case jsonParse E txt of
                 Some sb \<Rightarrow> Resolved sb
               | None \<Rightarrow> Rejected
                   ''The AI failed to create a valid story plan. Please try a different story.''))"

definition panelRequest :: "env \<Rightarrow> string \<Rightarrow> imageData list \<Rightarrow> string \<Rightarrow> request" where
  "panelRequest E panelPrompt characterRefs style =
     GenerateImage imageModel
       (map InlinePart characterRefs @ [TextPart (PANEL_RENDERING_PROMPT E panelPrompt style)])"

definition renderPanel ::
  "env \<Rightarrow> logEntry list \<Rightarrow> string \<Rightarrow> imageData list \<Rightarrow> string
     \<Rightarrow> logEntry list \<times> imageData outcome" where
  "renderPanel E h panelPrompt characterRefs style =
     (case callGenerateContent E (panelRequest E panelPrompt characterRefs style) h of
        (h', Rejected e) \<Rightarrow> (h', Rejected e)
      | (h', Resolved response) \<Rightarrow>
          (h', case findImage response of
                 None \<Rightarrow> Rejected ''API failed to return a panel image.''
               | Some d \<Rightarrow> Resolved d))"

section \<open>Narration client\<close>

text \<open>\<^verbatim>\<open>URL.createObjectURL(blob)\<close>: an opaque, non-empty URL of the blob scheme.\<close>

definition createObjectURL :: "string \<Rightarrow> string" where
  "createObjectURL blob = ''blob:'' @ blob"

definition ttsErrorMessage :: "nat \<Rightarrow> string \<Rightarrow> string" where
  "ttsErrorMessage status errorText =
     ''ElevenLabs API Error ('' @ showNat status @ ''): '' @
     (if status = 429 then
        ''Resource exhausted - you have reached your ElevenLabs API quota limit. Please check your account usage or upgrade your plan.''
      else if status = 401 then
        ''Authentication failed - please check your ElevenLabs API key permissions.''
      else if status = 400 then
        ''Bad request - the text might be too long or invalid.''
      else if errorText \<noteq> [] then errorText else ''Unknown error occurred.'')"

definition responseOk :: "nat \<Rightarrow> bool" where
  "responseOk status = (200 \<le> status \<and> status \<le> 299)"

text \<open>The \<^verbatim>\<open>try\<close> block of \<^verbatim>\<open>generateAudio\<close>: the one \<^verbatim>\<open>fetch\<close>, then the URL of the
  audio or the error thrown.\<close>

definition generateAudioTry ::
  "env \<Rightarrow> logEntry list \<Rightarrow> jsString \<Rightarrow> logEntry list \<times> string outcome" where
  "generateAudioTry E h txt =
     (case callFetchTts E txt h of
        (h', NetworkError e) \<Rightarrow> (h', Rejected e)
      | (h', HttpResponse status contentType body) \<Rightarrow>
          (h', if \<not> responseOk status then Rejected (ttsErrorMessage status body)
               else (case contentType of
                       None \<Rightarrow> Rejected (''ElevenLabs API returned invalid audio response: ''
                                         @ take 200 body)
                     | Some ct \<Rightarrow>
                         if strIncludes ct ''audio/'' then Resolved (createObjectURL body)
                         else Rejected (''ElevenLabs API returned invalid audio response: ''
                                        @ take 200 body))))"

text \<open>
  \<^verbatim>\<open>generateAudio\<close>. \<open>speechAvail\<close> is \<^verbatim>\<open>'speechSynthesis' in window\<close>, and
  \<open>ctorThrows\<close> says whether \<^verbatim>\<open>new SpeechSynthesisUtterance(text)\<close> throws. The
  outer \<^verbatim>\<open>catch\<close> block takes whatever the \<^verbatim>\<open>try\<close> block throws; inside it, a second
  \<^verbatim>\<open>try\<close> returns the speech handle once the utterance is constructed, its empty
  \<^verbatim>\<open>catch\<close> swallows a throwing constructor, and \<^verbatim>\<open>return null\<close> follows.
\<close>

definition generateAudio ::
  "env \<Rightarrow> bool \<Rightarrow> bool \<Rightarrow> logEntry list \<Rightarrow> jsString
     \<Rightarrow> logEntry list \<times> string option outcome" where
  "generateAudio E speechAvail ctorThrows h txt =
     (if trim txt = [] then (h, Resolved None)
      else (case generateAudioTry E h txt of
              (h', Resolved url) \<Rightarrow> (h', Resolved (Some url))
            | (h', Rejected e) \<Rightarrow>
                (h', if speechAvail then
                       (if ctorThrows then Resolved None
                        else Resolved (Some ''webspeech://current''))
                     else Resolved None)))"

section \<open>Application state and the browser around it\<close>

datatype step = Input | CharacterPreview | GeneratingComic | FinalComic

record userInput =
  drawing :: "imageData option"
  story :: string
  style :: string
  panelCount :: nat
  selectedArtStyle :: string

text \<open>\<^verbatim>\<open>AppState\<close>; \<open>currentAudio\<close> refers to an \<^verbatim>\<open>HTMLAudioElement\<close> by the number
  of the element.\<close>

record AppState =
  step :: step
  isLoading :: bool
  loadingMessage :: string
  error :: "string option"
  userInput :: userInput
  showStoryInput :: bool
  storySuggestions :: "string list"
  characterCard :: "imageData list"
  storyboard :: "storyboard option"
  panelImages :: "imageData option list"
  panelAudio :: "string option list"
  finalComicVideo :: "string option"
  currentPanel :: nat
  isPlaying :: bool
  currentAudio :: "nat option"
  isWebSpeech :: bool

text \<open>
  The global variable \<^verbatim>\<open>state\<close> together with what the browser holds:
  \<^item> \<open>speechSynthesisInWindow\<close>: \<^verbatim>\<open>'speechSynthesis' in window\<close>; \<open>utteranceThrows\<close>:
    whether \<^verbatim>\<open>new SpeechSynthesisUtterance(...)\<close> throws;
  \<^item> \<open>audioElements\<close>: the \<^verbatim>\<open>src\<close> of every audio element created so far (element
    \<open>h\<close> is the one at position \<open>h\<close>);
  \<^item> \<open>audioPlaying\<close>: the elements that are playing, from \<^verbatim>\<open>play()\<close> until
    \<^verbatim>\<open>pause()\<close>, the end of the media or an error;
  \<^item> \<open>playEvents\<close>: the \<^verbatim>\<open>play\<close> events queued by \<^verbatim>\<open>play()\<close> and not yet delivered;
  \<^item> \<open>speechQueue\<close>: the utterance queue of \<^verbatim>\<open>window.speechSynthesis\<close>, the head
    being spoken; \<^verbatim>\<open>speak\<close> appends and \<^verbatim>\<open>cancel\<close> empties it;
  \<^item> \<open>playTimers\<close>, \<open>errorTimers\<close>: the pending \<^verbatim>\<open>setTimeout\<close> callbacks that call
    \<^verbatim>\<open>playCurrentPanelAudio\<close> (150 ms) and that clear the error (5 s);
  \<^item> \<open>log\<close>: the log of remote calls and panel writes.
\<close>

record browser =
  state :: AppState
  speechSynthesisInWindow :: bool
  utteranceThrows :: bool
  audioElements :: "string list"
  audioPlaying :: "nat list"
  playEvents :: "nat list"
  speechQueue :: "jsString list"
  playTimers :: nat
  errorTimers :: nat
  log :: "logEntry list"

definition initState :: AppState where
  "initState =
     \<lparr> step = Input, isLoading = False, loadingMessage = [], error = None,
       userInput = \<lparr> drawing = None, story = [],
                     style = ''A vibrant and colorful cartoon with bold outlines.'',
                     panelCount = 4, selectedArtStyle = ''disney'' \<rparr>,
       showStoryInput = False, storySuggestions = [], characterCard = [],
       storyboard = None, panelImages = [], panelAudio = [], finalComicVideo = None,
       currentPanel = 0, isPlaying = False, currentAudio = None, isWebSpeech = False \<rparr>"

text \<open>JavaScript truthiness of a nullable string.\<close>

definition truthy :: "string option \<Rightarrow> bool" where
  "truthy v = (case v of None \<Rightarrow> False | Some s \<Rightarrow> s \<noteq> [])"

section \<open>Playback\<close>

text \<open>\<^verbatim>\<open>el.pause()\<close> and \<^verbatim>\<open>new Audio(url)\<close> followed by \<^verbatim>\<open>state.currentAudio = audio\<close>
  and \<^verbatim>\<open>audio.play()\<close>.\<close>

definition pauseElement :: "nat \<Rightarrow> browser \<Rightarrow> browser" where
  "pauseElement h b = b\<lparr>audioPlaying := removeAll h (audioPlaying b)\<rparr>"

definition newAudioPlay :: "string \<Rightarrow> browser \<Rightarrow> browser" where
  "newAudioPlay url b =
     b\<lparr> state := (state b)\<lparr>currentAudio := Some (length (audioElements b))\<rparr>,
        audioElements := audioElements b @ [url],
        audioPlaying := audioPlaying b @ [length (audioElements b)],
        playEvents := playEvents b @ [length (audioElements b)] \<rparr>"

text \<open>\<^verbatim>\<open>state.storyboard?.panels?.[state.currentPanel]?.speech?.map(s => s.text).join(' ') || ''\<close>\<close>

definition panelText :: "panel \<Rightarrow> jsString" where
  "panelText p = join (utf16 '' '') (map text' (speech p))"

definition textToSpeak :: "AppState \<Rightarrow> jsString" where
  "textToSpeak s =
     (case storyboard s of
        None \<Rightarrow> []
      | Some sb \<Rightarrow>
          if currentPanel s < length (panels sb) then panelText (panels sb ! currentPanel s)
          else [])"

text \<open>
  \<^verbatim>\<open>playCurrentPanelAudio\<close>. The speech branch sits in a \<^verbatim>\<open>try\<close> block with an empty
  \<^verbatim>\<open>catch\<close>: when the utterance cannot be constructed, control falls through to the
  audio element, as it does without speech synthesis or without a text.
\<close>

definition playCurrentPanelAudio :: "browser \<Rightarrow> browser" where
  "playCurrentPanelAudio b =
     (case at (panelAudio (state b)) (currentPanel (state b)) of
        None \<Rightarrow> b
      | Some audioUrl \<Rightarrow>
          if audioUrl = [] then b
          else
            let b1 = (case currentAudio (state b) of
                        None \<Rightarrow> b
                      | Some h \<Rightarrow> (pauseElement h b)\<lparr>state := (state b)\<lparr>currentAudio := None\<rparr>\<rparr>)
            in if startsWith audioUrl ''webspeech://'' \<and> speechSynthesisInWindow b1
                  \<and> textToSpeak (state b1) \<noteq> [] \<and> \<not> utteranceThrows b1
               then b1\<lparr>speechQueue := speechQueue b1 @ [textToSpeak (state b1)]\<rparr>
               else newAudioPlay audioUrl b1)"

text \<open>The end of \<^verbatim>\<open>renderFinalComicView\<close>, the only part of rendering that acts on the
  state or on the audio: narration starts when the current panel has audio, nothing is
  marked as playing and no element is current.\<close>

definition renderFinalComicView :: "browser \<Rightarrow> browser" where
  "renderFinalComicView b =
     (if truthy (at (panelAudio (state b)) (currentPanel (state b)))
         \<and> \<not> isPlaying (state b) \<and> currentAudio (state b) = None
      then playCurrentPanelAudio b else b)"

definition USE_REACT_UI :: bool where
  "USE_REACT_UI = False"

text \<open>\<^verbatim>\<open>render\<close>: a visible error schedules its own removal; the views of the other
  steps only build the page.\<close>

definition render :: "browser \<Rightarrow> browser" where
  "render b =
     (if USE_REACT_UI then b
      else
        let b1 = (if truthy (error (state b)) then b\<lparr>errorTimers := errorTimers b + 1\<rparr> else b)
        in case step (state b1) of
             FinalComic \<Rightarrow> renderFinalComicView b1
           | _ \<Rightarrow> b1)"

text \<open>\<^verbatim>\<open>setState(newState)\<close>: \<^verbatim>\<open>Object.assign\<close>, then \<^verbatim>\<open>render()\<close>.\<close>

definition setState :: "(AppState \<Rightarrow> AppState) \<Rightarrow> browser \<Rightarrow> browser" where
  "setState upd b = render (b\<lparr>state := upd (state b)\<rparr>)"

definition pauseAudio :: "browser \<Rightarrow> browser" where
  "pauseAudio b =
     (let b1 = (if isWebSpeech (state b) \<and> speechSynthesisInWindow b
                then b\<lparr>speechQueue := []\<rparr> else b)
      in case currentAudio (state b1) of
           None \<Rightarrow> b1
         | Some h \<Rightarrow>
             render (setState (\<lambda>s. s\<lparr>isPlaying := False, currentAudio := None\<rparr>)
                       (pauseElement h b1)))"

definition toggleAudio :: "browser \<Rightarrow> browser" where
  "toggleAudio b = (if isPlaying (state b) then pauseAudio b else playCurrentPanelAudio b)"

text \<open>The first lines of \<^verbatim>\<open>nextPanel\<close> and \<^verbatim>\<open>previousPanel\<close>: stop the current
  element, if any.\<close>

definition stopForMove :: "browser \<Rightarrow> browser" where
  "stopForMove b =
     (case currentAudio (state b) of
        None \<Rightarrow> b
      | Some h \<Rightarrow>
          setState (\<lambda>s. s\<lparr>isPlaying := False, currentAudio := None\<rparr>) (pauseElement h b))"

definition nextPanel :: "browser \<Rightarrow> browser" where
  "nextPanel b =
     (if int (currentPanel (state b)) < int (length (panelImages (state b))) - 1 then
        let wasPlaying = isPlaying (state b);
            b1 = stopForMove b;
            b2 = render (setState (\<lambda>s. s\<lparr>currentPanel := currentPanel s + 1\<rparr>) b1)
        in if wasPlaying then playCurrentPanelAudio b2 else b2
      else b)"

definition previousPanel :: "browser \<Rightarrow> browser" where
  "previousPanel b =
     (if 0 < currentPanel (state b) then
        let wasPlaying = isPlaying (state b);
            b1 = stopForMove b;
            b2 = render (setState (\<lambda>s. s\<lparr>currentPanel := currentPanel s - 1\<rparr>) b1)
        in if wasPlaying then playCurrentPanelAudio b2 else b2
      else b)"

definition advanceToNextPanelAndPlay :: "browser \<Rightarrow> browser" where
  "advanceToNextPanelAndPlay b =
     (let b1 = setState (\<lambda>s. s\<lparr>currentAudio := None\<rparr>) b
      in if int (currentPanel (state b1)) < int (length (panelAudio (state b1))) - 1 then
           (let b2 = setState (\<lambda>s. s\<lparr>currentPanel := currentPanel s + 1\<rparr>) b1
            in b2\<lparr>playTimers := playTimers b2 + 1\<rparr>)
         else render (setState (\<lambda>s. s\<lparr>isPlaying := False, currentAudio := None\<rparr>) b1))"

definition replayFullStory :: "browser \<Rightarrow> browser" where
  "replayFullStory b =
     (let b1 = (case currentAudio (state b) of None \<Rightarrow> b | Some h \<Rightarrow> pauseElement h b);
          b2 = render (setState (\<lambda>s. s\<lparr>currentPanel := 0, isPlaying := False,
                                        currentAudio := None\<rparr>) b1)
      in b2\<lparr>playTimers := playTimers b2 + 1\<rparr>)"

text \<open>The click handler of the button "Start a New Comic": \<^verbatim>\<open>initState(); render();\<close>\<close>

definition startOver :: "browser \<Rightarrow> browser" where
  "startOver b = render (b\<lparr>state := initState\<rparr>)"

subsection \<open>Callbacks\<close>

text \<open>The handlers that \<^verbatim>\<open>playCurrentPanelAudio\<close> installs on every audio element and
  on every utterance, and the callback of the 5 s error timer.\<close>

definition audio_onplay :: "browser \<Rightarrow> browser" where
  "audio_onplay b = render (setState (\<lambda>s. s\<lparr>isPlaying := True, isWebSpeech := False\<rparr>) b)"

definition audio_onended :: "browser \<Rightarrow> browser" where
  "audio_onended b = advanceToNextPanelAndPlay b"

definition audio_onerror :: "browser \<Rightarrow> browser" where
  "audio_onerror b = render (setState (\<lambda>s. s\<lparr>isPlaying := False, currentAudio := None\<rparr>) b)"

definition utter_onstart :: "browser \<Rightarrow> browser" where
  "utter_onstart b = setState (\<lambda>s. s\<lparr>isPlaying := True, isWebSpeech := True\<rparr>) b"

definition utter_onend :: "browser \<Rightarrow> browser" where
  "utter_onend b =
     advanceToNextPanelAndPlay (setState (\<lambda>s. s\<lparr>isPlaying := False, isWebSpeech := False\<rparr>) b)"

definition error_timeout :: "browser \<Rightarrow> browser" where
  "error_timeout b = setState (\<lambda>s. s\<lparr>error := None\<rparr>) b"

text \<open>
  What can happen to the final view: a call of one of the playback operations, or the
  browser delivering an event. An event that is not pending leaves everything as it is.
  The timer callback is the \<^verbatim>\<open>playCurrentPanelAudio\<close> scheduled by the automatic
  advance and by the replay.
\<close>

datatype action =
    Play | Pause | Toggle | Next | Previous | Replay | StartOver
  | AudioPlay nat | AudioEnded nat | AudioError nat
  | UtterStart | UtterEnd | PlayTimeout | ErrorTimeout

fun perform :: "action \<Rightarrow> browser \<Rightarrow> browser" where
  "perform Play b = playCurrentPanelAudio b"
| "perform Pause b = pauseAudio b"
| "perform Toggle b = toggleAudio b"
| "perform Next b = nextPanel b"
| "perform Previous b = previousPanel b"
| "perform Replay b = replayFullStory b"
| "perform StartOver b = startOver b"
| "perform (AudioPlay h) b =
     (if h \<in> set (playEvents b) then audio_onplay (b\<lparr>playEvents := remove1 h (playEvents b)\<rparr>)
      else b)"
| "perform (AudioEnded h) b =
     (if h \<in> set (audioPlaying b) then audio_onended (pauseElement h b) else b)"
| "perform (AudioError h) b =
     (if h \<in> set (audioPlaying b) then audio_onerror (pauseElement h b) else b)"
| "perform UtterStart b = (if speechQueue b = [] then b else utter_onstart b)"
| "perform UtterEnd b =
     (if speechQueue b = [] then b else utter_onend (b\<lparr>speechQueue := tl (speechQueue b)\<rparr>))"
| "perform PlayTimeout b =
     (if playTimers b = 0 then b else playCurrentPanelAudio (b\<lparr>playTimers := playTimers b - 1\<rparr>))"
| "perform ErrorTimeout b =
     (if errorTimers b = 0 then b else error_timeout (b\<lparr>errorTimers := errorTimers b - 1\<rparr>))"

fun run :: "action list \<Rightarrow> browser \<Rightarrow> browser" where
  "run [] b = b"
| "run (a # as) b = run as (perform a b)"

text \<open>The audio handles that are active: the audio elements that are playing, and the
  utterance being spoken.\<close>

definition activeHandles :: "browser \<Rightarrow> nat" where
  "activeHandles b = length (audioPlaying b) + (if speechQueue b = [] then 0 else 1)"

section \<open>Pipeline orchestration\<close>

text \<open>
  An asynchronous handler runs here from its start to its end: no click and no timer is
  interleaved with its steps. An \<^verbatim>\<open>await\<close> is the reply of the environment at that
  point of the log.
\<close>

text \<open>The three lines of the loop body after the \<^verbatim>\<open>await\<close>: copy \<^verbatim>\<open>panelImages\<close>,
  write the image at index \<open>i\<close>, and \<^verbatim>\<open>setState\<close>. The write is entered in the log.\<close>

definition storePanelImage :: "nat \<Rightarrow> imageData \<Rightarrow> browser \<Rightarrow> browser" where
  "storePanelImage i newImage b =
     (setState (\<lambda>s. s\<lparr>panelImages := setAt (panelImages s) i newImage\<rparr>) b)
       \<lparr>log := log b @ [Stored i newImage]\<rparr>"

text \<open>The loop \<^verbatim>\<open>for (let i = 0; i < storyboard.panels.length; i++)\<close>, from index \<open>i\<close>
  with the panels that are left. It ends with the thrown error, if any.\<close>

fun illustratePanels :: "env \<Rightarrow> panel list \<Rightarrow> nat \<Rightarrow> browser \<Rightarrow> string option \<times> browser" where
  "illustratePanels E [] i b = (None, b)"
| "illustratePanels E (p # ps) i b =
     (case renderPanel E (log b) (prompt p) (characterCard (state b))
             (style (userInput (state b))) of
        (h, Rejected e) \<Rightarrow> (Some e, b\<lparr>log := h\<rparr>)
      | (h, Resolved newImage) \<Rightarrow>
          illustratePanels E ps (i + 1) (storePanelImage i newImage (b\<lparr>log := h\<rparr>)))"

text \<open>\<^verbatim>\<open>storyboard.panels.map(panel => generateAudio(...))\<close>: the calls are issued in
  the order of the panels, none awaited before the next is issued.\<close>

fun audioPromises ::
  "env \<Rightarrow> bool \<Rightarrow> bool \<Rightarrow> logEntry list \<Rightarrow> jsString list
     \<Rightarrow> logEntry list \<times> string option outcome list" where
  "audioPromises E speechAvail ctorThrows h [] = (h, [])"
| "audioPromises E speechAvail ctorThrows h (t # ts) =
     (case generateAudio E speechAvail ctorThrows h t of
        (h1, r) \<Rightarrow>
          (case audioPromises E speechAvail ctorThrows h1 ts of
             (h2, rs) \<Rightarrow> (h2, r # rs)))"

definition createComicVideo :: string where
  "createComicVideo = ''sequential-comic''"

text \<open>The \<^verbatim>\<open>try\<close> block of \<^verbatim>\<open>handlePlanAndRenderComic\<close>: the thrown error, if any, and
  the browser at that point. The pictographs of the loading messages are left out.\<close>

definition comicTry :: "env \<Rightarrow> browser \<Rightarrow> string option \<times> browser" where
  "comicTry E b =
     (case planStoryboard E (log b) (story (userInput (state b)))
             (panelCount (userInput (state b))) of
        (h1, Rejected e) \<Rightarrow> (Some e, b\<lparr>log := h1\<rparr>)
      | (h1, Resolved sb) \<Rightarrow>
          (case illustratePanels E (panels sb) 0
                  (setState (\<lambda>s. s\<lparr>storyboard := Some sb,
                                    loadingMessage := ''Illustrating your comic...''\<rparr>)
                     (b\<lparr>log := h1\<rparr>)) of
             (Some e, b3) \<Rightarrow> (Some e, b3)
           | (None, b3) \<Rightarrow>
               let b4 = setState (\<lambda>s. s\<lparr>isLoading := True,
                             loadingMessage := ''Generating audio narration...''\<rparr>) b3
               in case audioPromises E (speechSynthesisInWindow b4) (utteranceThrows b4) (log b4)
                         (map panelText (panels sb)) of
                    (h5, promises) \<Rightarrow>
                      (case promiseAll promises of
                         Rejected e \<Rightarrow> (Some e, b4\<lparr>log := h5\<rparr>)
                       | Resolved audio \<Rightarrow>
                           let b6 = setState (\<lambda>s. s\<lparr>panelAudio := audio\<rparr>) (b4\<lparr>log := h5\<rparr>);
                               b7 = setState (\<lambda>s. s\<lparr>isLoading := True,
                                        loadingMessage := ''Creating your comic video...''\<rparr>) b6
                           in (None, setState (\<lambda>s. s\<lparr>isLoading := False,
                                        finalComicVideo := Some createComicVideo,
                                        step := FinalComic\<rparr>) b7))))"

text \<open>The message of the \<^verbatim>\<open>catch\<close> block; the pictograph that starts each message in
  the source is left out.\<close>

definition comicErrorMessage :: "string \<Rightarrow> string" where
  "comicErrorMessage m =
     (if strIncludes m ''429'' \<or> strIncludes m ''Resource has been exhausted'' then
        (if strIncludes m ''ElevenLabs'' then
           ''ElevenLabs API Error: Resource exhausted - you have reached your ElevenLabs API quota limit. Please check your account usage or upgrade your plan.''
         else
           ''Gemini API Error: Resource exhausted - you have reached your Gemini API quota limit. Please check your Google AI Studio account usage or try again later.'')
      else if strIncludes m ''401'' \<or> strIncludes m ''Authentication'' then
        (if strIncludes m ''ElevenLabs'' then
           ''ElevenLabs API Error: Authentication failed - please check your ElevenLabs API key permissions.''
         else ''Gemini API Error: Authentication failed - please check your Gemini API key.'')
      else if strIncludes m ''ElevenLabs'' then ''ElevenLabs API Error: '' @ m
      else if strIncludes m ''API failed to return'' then ''Gemini API Error: '' @ m
      else ''Comic Generation Error: '' @ m)"

definition handlePlanAndRenderComic :: "env \<Rightarrow> browser \<Rightarrow> browser" where
  "handlePlanAndRenderComic E b =
     (case comicTry E
             (setState (\<lambda>s. s\<lparr>isLoading := True,
                               loadingMessage := ''Planning your epic story...'',
                               step := GeneratingComic,
                               panelImages := replicate (panelCount (userInput s)) None\<rparr>) b) of
        (None, b') \<Rightarrow> b'
      | (Some e, b') \<Rightarrow>
          setState (\<lambda>s. s\<lparr>isLoading := False, error := Some (comicErrorMessage e),
                            step := Input\<rparr>) b')"


section \<open>The earlier revision: grid layout as the last step\<close>

text \<open>
  The earlier revision of the client has no playback state; its run ends with a call
  of the grid proxy. Its \<^verbatim>\<open>generateCharacterCard\<close>, \<^verbatim>\<open>planStoryboard\<close> and
  \<^verbatim>\<open>renderPanel\<close> are those above with the prompt text written in place. Names of
  this revision carry the suffix \<open>_p2\<close>.
\<close>

record userInput_p2 =
  drawing_p2 :: "imageData option"
  story_p2 :: string
  style_p2 :: string
  panelCount_p2 :: nat

record AppState_p2 =
  step_p2 :: step
  isLoading_p2 :: bool
  loadingMessage_p2 :: string
  error_p2 :: "string option"
  userInput_p2 :: userInput_p2
  characterCard_p2 :: "imageData list"
  storyboard_p2 :: "storyboard option"
  panelImages_p2 :: "imageData option list"
  panelAudio_p2 :: "string option list"
  finalComicImage :: "imageData option"

record browser_p2 =
  state_p2 :: AppState_p2
  errorTimers_p2 :: nat
  log_p2 :: "logEntry list"

definition initState_p2 :: AppState_p2 where
  "initState_p2 =
     \<lparr> step_p2 = Input, isLoading_p2 = False, loadingMessage_p2 = [], error_p2 = None,
       userInput_p2 = \<lparr> drawing_p2 = None,
                        story_p2 = ''A hero dog flies in to save a cat stuck in a tree.'',
                        style_p2 = ''A vibrant and colorful cartoon with bold outlines.'',
                        panelCount_p2 = 4 \<rparr>,
       characterCard_p2 = [], storyboard_p2 = None, panelImages_p2 = [], panelAudio_p2 = [],
       finalComicImage = None \<rparr>"

definition render_p2 :: "browser_p2 \<Rightarrow> browser_p2" where
  "render_p2 b =
     (if truthy (error_p2 (state_p2 b)) then b\<lparr>errorTimers_p2 := errorTimers_p2 b + 1\<rparr> else b)"

definition setState_p2 :: "(AppState_p2 \<Rightarrow> AppState_p2) \<Rightarrow> browser_p2 \<Rightarrow> browser_p2" where
  "setState_p2 upd b = render_p2 (b\<lparr>state_p2 := upd (state_p2 b)\<rparr>)"

text \<open>\<^verbatim>\<open>generateAudio\<close> of the earlier revision: no speech fallback, and a JSON reply
  means no audio.\<close>

definition generateAudioTry_p2 ::
  "env \<Rightarrow> logEntry list \<Rightarrow> jsString \<Rightarrow> logEntry list \<times> string option outcome" where
  "generateAudioTry_p2 E h txt =
     (case callFetchTts E txt h of
        (h', NetworkError e) \<Rightarrow> (h', Rejected e)
      | (h', HttpResponse status contentType body) \<Rightarrow>
          (h', if \<not> responseOk status then Rejected (''tts '' @ showNat status)
               else (case contentType of
                       None \<Rightarrow> Resolved (Some (createObjectURL body))
                     | Some ct \<Rightarrow>
                         if strIncludes ct ''application/json'' then Resolved None
                         else Resolved (Some (createObjectURL body)))))"

definition generateAudio_p2 ::
  "env \<Rightarrow> logEntry list \<Rightarrow> jsString \<Rightarrow> logEntry list \<times> string option outcome" where
  "generateAudio_p2 E h txt =
     (if trim txt = [] then (h, Resolved None)
      else (case generateAudioTry_p2 E h txt of
              (h', Resolved r) \<Rightarrow> (h', Resolved r)
            | (h', Rejected e) \<Rightarrow> (h', Resolved None)))"

fun audioPromises_p2 ::
  "env \<Rightarrow> logEntry list \<Rightarrow> jsString list \<Rightarrow> logEntry list \<times> string option outcome list" where
  "audioPromises_p2 E h [] = (h, [])"
| "audioPromises_p2 E h (t # ts) =
     (case generateAudio_p2 E h t of
        (h1, r) \<Rightarrow> (case audioPromises_p2 E h1 ts of (h2, rs) \<Rightarrow> (h2, r # rs)))"

text \<open>\<^verbatim>\<open>s.toLowerCase()\<close> on ASCII letters, and \<^verbatim>\<open>url.split(',')[1] || ''\<close>.\<close>

definition toLowerChar :: "char \<Rightarrow> char" where
  "toLowerChar c =
     (if (65::nat) \<le> of_char c \<and> (of_char c :: nat) \<le> 90 then char_of (of_char c + (32::nat))
      else c)"

definition toLowerCase :: "string \<Rightarrow> string" where
  "toLowerCase s = map toLowerChar s"

definition afterFirstComma :: "string \<Rightarrow> string" where
  "afterFirstComma url =
     takeWhile (\<lambda>c. c \<noteq> CHR '','') (drop 1 (dropWhile (\<lambda>c. c \<noteq> CHR '','') url))"

text \<open>The caption of a panel: the text of its first line spoken by the narrator.\<close>

definition caption :: "panel \<Rightarrow> jsString" where
  "caption p =
     (case List.find (\<lambda>s. toLowerCase (who s) = ''narrator'') (speech p) of
        None \<Rightarrow> []
      | Some s \<Rightarrow> text' s)"

text \<open>\<^verbatim>\<open>state.panelImages.map((img, i) => ({image: img!, caption: ...panels[i].speech...}))\<close>:
  an image slot beyond the last panel of the storyboard throws a \<^verbatim>\<open>TypeError\<close>.\<close>

fun panelDataForLayout ::
  "imageData option list \<Rightarrow> panel list \<Rightarrow> (imageData option \<times> jsString) list outcome" where
  "panelDataForLayout [] ps = Resolved []"
| "panelDataForLayout (img # imgs) [] = Rejected ''TypeError''"
| "panelDataForLayout (img # imgs) (p # ps) =
     (case panelDataForLayout imgs ps of
        Rejected e \<Rightarrow> Rejected e
      | Resolved ds \<Rightarrow> Resolved ((img, caption p) # ds))"

text \<open>\<^verbatim>\<open>panels.map(p => `data:image/png;base64,${p.image.base64}`)\<close>: an empty image slot
  throws a \<^verbatim>\<open>TypeError\<close>.\<close>

fun imageUrls :: "(imageData option \<times> jsString) list \<Rightarrow> string list outcome" where
  "imageUrls [] = Resolved []"
| "imageUrls ((None, c) # ds) = Rejected ''TypeError''"
| "imageUrls ((Some img, c) # ds) =
     (case imageUrls ds of
        Rejected e \<Rightarrow> Rejected e
      | Resolved us \<Rightarrow> Resolved ((''data:image/png;base64,'' @ base64 img) # us))"

definition gridCols :: "nat \<Rightarrow> nat" where
  "gridCols count = (if count \<le> 4 then 2 else 3)"

text \<open>\<^verbatim>\<open>generateComicLayout\<close>.\<close>

definition generateComicLayout ::
  "env \<Rightarrow> logEntry list \<Rightarrow> nat \<Rightarrow> (imageData option \<times> jsString) list
     \<Rightarrow> logEntry list \<times> imageData outcome" where
  "generateComicLayout E h count ds =
     (case imageUrls ds of
        Rejected e \<Rightarrow> (h, Rejected e)
      | Resolved us \<Rightarrow>
          (case callFetchGrid E us (gridCols count) h of
             (h', GridNetworkError e) \<Rightarrow> (h', Rejected e)
           | (h', GridResponse status body) \<Rightarrow>
               (h', if \<not> responseOk status then Rejected (''Fal grid '' @ showNat status)
                    else (case body of
                            Rejected e \<Rightarrow> Rejected e
                          | Resolved images \<Rightarrow>
                              (case images of
                                 [] \<Rightarrow> Rejected ''No grid image returned''
                               | u # us' \<Rightarrow>
                                   (case u of
                                      None \<Rightarrow> Rejected ''No grid image returned''
                                    | Some url \<Rightarrow>
                                        if url = [] then Rejected ''No grid image returned''
                                        else Resolved \<lparr> base64 = afterFirstComma url,
                                                        mimeType = ''image/png'' \<rparr>))))))"

definition storePanelImage_p2 :: "nat \<Rightarrow> imageData \<Rightarrow> browser_p2 \<Rightarrow> browser_p2" where
  "storePanelImage_p2 i newImage b =
     (setState_p2 (\<lambda>s. s\<lparr>panelImages_p2 := setAt (panelImages_p2 s) i newImage\<rparr>) b)
       \<lparr>log_p2 := log_p2 b @ [Stored i newImage]\<rparr>"

fun illustratePanels_p2 ::
  "env \<Rightarrow> panel list \<Rightarrow> nat \<Rightarrow> browser_p2 \<Rightarrow> string option \<times> browser_p2" where
  "illustratePanels_p2 E [] i b = (None, b)"
| "illustratePanels_p2 E (p # ps) i b =
     (case renderPanel E (log_p2 b) (prompt p) (characterCard_p2 (state_p2 b))
             (style_p2 (userInput_p2 (state_p2 b))) of
        (h, Rejected e) \<Rightarrow> (Some e, b\<lparr>log_p2 := h\<rparr>)
      | (h, Resolved newImage) \<Rightarrow>
          illustratePanels_p2 E ps (i + 1) (storePanelImage_p2 i newImage (b\<lparr>log_p2 := h\<rparr>)))"

text \<open>The steps of the \<^verbatim>\<open>try\<close> block after the illustration loop: narration, then the
  layout call.\<close>

definition narrateAndLayout_p2 :: "env \<Rightarrow> storyboard \<Rightarrow> browser_p2 \<Rightarrow> string option \<times> browser_p2" where
  "narrateAndLayout_p2 E sb b3 =
     (let b4 = setState_p2 (\<lambda>s. s\<lparr>isLoading_p2 := True,
                   loadingMessage_p2 := ''Generating audio narration...''\<rparr>) b3
      in case audioPromises_p2 E (log_p2 b4) (map panelText (panels sb)) of
           (h5, promises) \<Rightarrow>
             (case promiseAll promises of
                Rejected e \<Rightarrow> (Some e, b4\<lparr>log_p2 := h5\<rparr>)
              | Resolved audio \<Rightarrow>
                  let b6 = setState_p2 (\<lambda>s. s\<lparr>panelAudio_p2 := audio\<rparr>) (b4\<lparr>log_p2 := h5\<rparr>);
                      b7 = setState_p2 (\<lambda>s. s\<lparr>isLoading_p2 := True,
                               loadingMessage_p2 := ''Assembling final comic strip...''\<rparr>) b6
                  in case panelDataForLayout (panelImages_p2 (state_p2 b7)) (panels sb) of
                       Rejected e \<Rightarrow> (Some e, b7)
                     | Resolved ds \<Rightarrow>
                         (case generateComicLayout E (log_p2 b7)
                                 (panelCount_p2 (userInput_p2 (state_p2 b7))) ds of
                            (h8, Rejected e) \<Rightarrow> (Some e, b7\<lparr>log_p2 := h8\<rparr>)
                          | (h8, Resolved finalImage) \<Rightarrow>
                              (None, setState_p2 (\<lambda>s. s\<lparr>isLoading_p2 := False,
                                        finalComicImage := Some finalImage,
                                        step_p2 := FinalComic\<rparr>)
                                       (b7\<lparr>log_p2 := h8\<rparr>)))))"

definition comicTry_p2 :: "env \<Rightarrow> browser_p2 \<Rightarrow> string option \<times> browser_p2" where
  "comicTry_p2 E b =
     (case planStoryboard E (log_p2 b) (story_p2 (userInput_p2 (state_p2 b)))
             (panelCount_p2 (userInput_p2 (state_p2 b))) of
        (h1, Rejected e) \<Rightarrow> (Some e, b\<lparr>log_p2 := h1\<rparr>)
      | (h1, Resolved sb) \<Rightarrow>
          (case illustratePanels_p2 E (panels sb) 0
                  (setState_p2 (\<lambda>s. s\<lparr>storyboard_p2 := Some sb,
                                       loadingMessage_p2 := ''Illustrating your comic...''\<rparr>)
                     (b\<lparr>log_p2 := h1\<rparr>)) of
             (Some e, b3) \<Rightarrow> (Some e, b3)
           | (None, b3) \<Rightarrow> narrateAndLayout_p2 E sb b3))"

definition handlePlanAndRenderComic_p2 :: "env \<Rightarrow> browser_p2 \<Rightarrow> browser_p2" where
  "handlePlanAndRenderComic_p2 E b =
     (case comicTry_p2 E
             (setState_p2 (\<lambda>s. s\<lparr>isLoading_p2 := True,
                                  loadingMessage_p2 := ''Planning your epic story...'',
                                  step_p2 := GeneratingComic,
                                  panelImages_p2 := replicate (panelCount_p2 (userInput_p2 s)) None\<rparr>) b) of
        (None, b') \<Rightarrow> b'
      | (Some e, b') \<Rightarrow>
          setState_p2 (\<lambda>s. s\<lparr>isLoading_p2 := False, error_p2 := Some e, step_p2 := Input\<rparr>) b')"

section \<open>Properties stated over the model\<close>

text \<open>The playback state at a glance: panel index, playing flag, current audio element,
  the elements that are playing, the utterance queue, the pending playback timers and
  the pending \<^verbatim>\<open>play\<close> events.\<close>

definition playback ::
  "browser \<Rightarrow> nat \<times> bool \<times> nat option \<times> nat list \<times> jsString list \<times> nat \<times> nat list" where
  "playback b =
     (currentPanel (state b), isPlaying (state b), currentAudio (state b), audioPlaying b,
      speechQueue b, playTimers b, playEvents b)"

text \<open>The pipeline state at a glance: step, error, panel images, narration handles and
  the number of panels of the storyboard.\<close>

definition pipeline ::
  "browser \<Rightarrow> step \<times> string option \<times> imageData option list \<times> string option list \<times> nat option" where
  "pipeline b =
     (step (state b), error (state b), panelImages (state b), panelAudio (state b),
      map_option (\<lambda>sb. length (panels sb)) (storyboard (state b)))"


definition pipeline_p2 ::
  "browser_p2 \<Rightarrow> step \<times> string option \<times> imageData option list \<times> imageData option" where
  "pipeline_p2 b =
     (step_p2 (state_p2 b), error_p2 (state_p2 b), panelImages_p2 (state_p2 b),
      finalComicImage (state_p2 b))"




section \<open>Example inputs\<close>

text \<open>A drawing, a storyboard of three panels, and environments whose image model
  always answers with an image. The prompt templates are short stand-ins.\<close>

definition exImage :: imageData where
  "exImage = \<lparr> base64 = ''AAAA'', mimeType = ''image/png'' \<rparr>"

definition exPanel :: "string \<Rightarrow> string \<Rightarrow> panel" where
  "exPanel i t = \<lparr> pid = i, prompt = ''scene '' @ i,
                   speech = [\<lparr> who = ''Narrator'', text' = utf16 t \<rparr>] \<rparr>"

definition exStoryboard :: storyboard where
  "exStoryboard = \<lparr> title = ''Rex'',
                     panels = [exPanel ''p1'' ''One.'', exPanel ''p2'' ''Two.'',
                               exPanel ''p3'' ''Three.''] \<rparr>"

definition exEnv ::
  "(request \<Rightarrow> genResponse outcome) \<Rightarrow> storyboard option \<Rightarrow> (jsString \<Rightarrow> fetchReply)
     \<Rightarrow> gridReply \<Rightarrow> env" where
  "exEnv gen parsed tts grid =
     \<lparr> generateContent = (\<lambda>h q. gen q),
       generateText = (\<lambda>h q. Resolved ''reply''),
       jsonParse = (\<lambda>t. parsed),
       fetchTts = (\<lambda>h t. tts t),
       fetchGrid = (\<lambda>h us c. grid),
       CHARACTER_GENERATION_PROMPT = (\<lambda>sty pose. pose),
       STORYBOARD_SYSTEM_INSTRUCTION = (\<lambda>n. ''plan''),
       PANEL_RENDERING_PROMPT = (\<lambda>p sty. p) \<rparr>"

definition genOk :: "request \<Rightarrow> genResponse outcome" where
  "genOk q = Resolved [[TextPart ''done'', InlinePart exImage]]"


definition ttsAudio :: "jsString \<Rightarrow> fetchReply" where
  "ttsAudio t = HttpResponse 200 (Some ''audio/mpeg'') (map char_of t)"

definition ttsDown :: "jsString \<Rightarrow> fetchReply" where
  "ttsDown t = NetworkError ''Failed to fetch''"

text \<open>A narration proxy that fails for the second panel only.\<close>

definition ttsNoTwo :: "jsString \<Rightarrow> fetchReply" where
  "ttsNoTwo t = (if t = utf16 ''Two.'' then HttpResponse 500 None ''Internal Server Error'' else ttsAudio t)"


definition gridOk :: gridReply where
  "gridOk = GridResponse 200 (Resolved [Some ''data:image/png;base64,GRID'']) "

definition gridDown :: gridReply where
  "gridDown = GridResponse 500 (Rejected ''no body'')"

text \<open>The browser on the input screen, with a drawing and a story, and four panels asked
  for.\<close>

definition exBrowser :: browser where
  "exBrowser =
     \<lparr> state = initState\<lparr>userInput := (userInput initState)\<lparr>drawing := Some exImage,
                                                            story := ''A dog.''\<rparr>\<rparr>,
       speechSynthesisInWindow = True, utteranceThrows = False, audioElements = [],
       audioPlaying = [],
       playEvents = [], speechQueue = [], playTimers = 0, errorTimers = 0, log = [] \<rparr>"

definition exBrowser_p2 :: browser_p2 where
  "exBrowser_p2 =
     \<lparr> state_p2 = initState_p2\<lparr>userInput_p2 :=
                      (userInput_p2 initState_p2)\<lparr>drawing_p2 := Some exImage,
                                                    panelCount_p2 := 3\<rparr>,
                    characterCard_p2 := [exImage, exImage, exImage]\<rparr>,
       errorTimers_p2 = 0, log_p2 = [] \<rparr>"


text \<open>The browser as a completed run over \<open>exStoryboard\<close> leaves it, with the given
  narration results: the last \<^verbatim>\<open>setState\<close> of the run switches to the final view.\<close>

definition finalView :: "string option list \<Rightarrow> browser" where
  "finalView audio =
     setState (\<lambda>s. s\<lparr>isLoading := False, finalComicVideo := Some createComicVideo,
                       step := FinalComic\<rparr>)
       (exBrowser\<lparr>state := (state exBrowser)\<lparr>step := GeneratingComic, isLoading := True,
                     characterCard := [exImage, exImage, exImage],
                     storyboard := Some exStoryboard,
                     panelImages := [Some exImage, Some exImage, Some exImage],
                     panelAudio := audio,
                     userInput := (userInput (state exBrowser))\<lparr>panelCount := 3\<rparr>\<rparr>\<rparr>)"






section \<open>What rendering leaves alone\<close>

lemma playCurrentPanelAudio_state:
  "state (playCurrentPanelAudio b)
     = (state b)\<lparr>currentAudio := currentAudio (state (playCurrentPanelAudio b))\<rparr>"
  by (simp add: playCurrentPanelAudio_def newAudioPlay_def pauseElement_def Let_def
      split: option.splits)

lemma playCurrentPanelAudio_frame:
  "log (playCurrentPanelAudio b) = log b"
  "playTimers (playCurrentPanelAudio b) = playTimers b"
  "errorTimers (playCurrentPanelAudio b) = errorTimers b"
  "speechSynthesisInWindow (playCurrentPanelAudio b) = speechSynthesisInWindow b"
  "utteranceThrows (playCurrentPanelAudio b) = utteranceThrows b"
  by (simp_all add: playCurrentPanelAudio_def newAudioPlay_def pauseElement_def Let_def
      split: option.splits)

lemma render_state:
  "state (render b) = (state b)\<lparr>currentAudio := currentAudio (state (render b))\<rparr>"
proof (cases "step (state b) = FinalComic
    \<and> truthy (at (panelAudio (state b)) (currentPanel (state b)))
    \<and> \<not> isPlaying (state b) \<and> currentAudio (state b) = None")
  case True
  then show ?thesis
    using playCurrentPanelAudio_state[of b]
      playCurrentPanelAudio_state[of "b\<lparr>errorTimers := errorTimers b + 1\<rparr>"]
    by (simp add: render_def renderFinalComicView_def USE_REACT_UI_def)
next
  case False
  then show ?thesis
    by (auto simp: render_def renderFinalComicView_def USE_REACT_UI_def split: step.splits)
qed

lemma render_frame:
  "log (render b) = log b"
  "playTimers (render b) = playTimers b"
  "speechSynthesisInWindow (render b) = speechSynthesisInWindow b"
  "utteranceThrows (render b) = utteranceThrows b"
  by (simp_all add: render_def renderFinalComicView_def USE_REACT_UI_def Let_def
      playCurrentPanelAudio_frame split: step.splits)


lemma setState_state:
  "state (setState upd b) = (upd (state b))\<lparr>currentAudio := currentAudio (state (setState upd b))\<rparr>"
  using render_state[of "b\<lparr>state := upd (state b)\<rparr>"] by (simp add: setState_def)

lemma setState_frame:
  "log (setState upd b) = log b"
  "playTimers (setState upd b) = playTimers b"
  "speechSynthesisInWindow (setState upd b) = speechSynthesisInWindow b"
  "utteranceThrows (setState upd b) = utteranceThrows b"
  by (simp_all add: setState_def render_frame)


lemma setState_fields:
  "step (state (setState upd b)) = step (upd (state b))"
  "userInput (state (setState upd b)) = userInput (upd (state b))"
  "characterCard (state (setState upd b)) = characterCard (upd (state b))"
  "storyboard (state (setState upd b)) = storyboard (upd (state b))"
  "panelImages (state (setState upd b)) = panelImages (upd (state b))"
  "panelAudio (state (setState upd b)) = panelAudio (upd (state b))"
  "currentPanel (state (setState upd b)) = currentPanel (upd (state b))"
  "isPlaying (state (setState upd b)) = isPlaying (upd (state b))"
  "error (state (setState upd b)) = error (upd (state b))"
  "isLoading (state (setState upd b)) = isLoading (upd (state b))"
  "loadingMessage (state (setState upd b)) = loadingMessage (upd (state b))"
  by (subst setState_state, simp)+


section \<open>Narration never fails the run\<close>

lemma dropWhile_all: "(dropWhile P xs = []) = list_all P xs"
  by (induction xs) auto

lemma trim_empty_iff: "(trim s = []) = list_all isSpace s"
proof -
  have "(trim s = []) = (\<forall>x\<in>set (dropWhile isSpace s). isSpace x)"
    by (simp add: trim_def dropWhile_all list_all_iff)
  also have "\<dots> = (dropWhile isSpace s = [])"
  proof (cases "dropWhile isSpace s")
    case Nil
    show ?thesis unfolding Nil by simp
  next
    case (Cons a as)
    then have "\<not> isSpace a" using hd_dropWhile[of isSpace s] by auto
    then show ?thesis unfolding Cons by simp
  qed
  also have "\<dots> = list_all isSpace s" by (rule dropWhile_all)
  finally show ?thesis .
qed

text \<open>
  Claim C7. \<^verbatim>\<open>generateAudio\<close> always resolves. For a text that is empty or made of
  white space only (every white space character of \<^verbatim>\<open>trim\<close>, the no-break space and
  the other Unicode spaces included) it resolves to null and the log is as before: no
  call is issued. For any other text the log after it is the log before it with exactly
  one call of the narration proxy, carrying this text, and the result is decided by
  the environment's reply to this call: when the reply is a transport failure, a status
  outside 2xx or not audio, it resolves to the on-device speech handle if the browser
  has speech synthesis and the utterance can be constructed, and to null otherwise;
  when the reply is audio it resolves to the URL made from the body of the reply.
\<close>

theorem generateAudio_absorbs_failure:
  "(\<exists>r. snd (generateAudio E speechAvail ctorThrows h txt) = Resolved r)
   \<and> (list_all isSpace txt \<longrightarrow>
        generateAudio E speechAvail ctorThrows h txt = (h, Resolved None))
   \<and> (\<not> list_all isSpace txt \<longrightarrow>
        fst (generateAudio E speechAvail ctorThrows h txt) = h @ [Call (FetchTts txt)])
   \<and> (\<forall>e. \<not> list_all isSpace txt \<and> fetchTts E h txt = NetworkError e \<longrightarrow>
        snd (generateAudio E speechAvail ctorThrows h txt)
          = Resolved (if speechAvail \<and> \<not> ctorThrows then Some ''webspeech://current''
                      else None))
   \<and> (\<forall>status ct body.
         \<not> list_all isSpace txt \<and> fetchTts E h txt = HttpResponse status ct body
         \<and> (status < 200 \<or> 299 < status \<or> ct = None
              \<or> (\<exists>c. ct = Some c \<and> \<not> strIncludes c ''audio/'')) \<longrightarrow>
        snd (generateAudio E speechAvail ctorThrows h txt)
          = Resolved (if speechAvail \<and> \<not> ctorThrows then Some ''webspeech://current''
                      else None))
   \<and> (\<forall>status c body.
         \<not> list_all isSpace txt \<and> fetchTts E h txt = HttpResponse status (Some c) body
         \<and> 200 \<le> status \<and> status \<le> 299 \<and> strIncludes c ''audio/'' \<longrightarrow>
        snd (generateAudio E speechAvail ctorThrows h txt)
          = Resolved (Some (''blob:'' @ body)))"
  by (auto simp: generateAudio_def generateAudioTry_def callFetchTts_def
        trim_empty_iff createObjectURL_def responseOk_def
      split: fetchReply.splits option.splits outcome.splits if_splits prod.splits)

theorem generateAudio_absorbs_failure_witness:
  "list_all isSpace [0x00A0, 0x0020, 0x3000, 0x000A]
   \<and> generateAudio (exEnv genOk None ttsAudio gridOk) True False [] [0x00A0, 0x0020, 0x3000, 0x000A]
       = ([], Resolved None)
   \<and> \<not> list_all isSpace (utf16 ''Two.'')
   \<and> fst (generateAudio (exEnv genOk None ttsNoTwo gridOk) True False [] (utf16 ''Two.''))
       = [Call (FetchTts (utf16 ''Two.''))]
   \<and> fetchTts (exEnv genOk None ttsNoTwo gridOk) [] (utf16 ''Two.'')
       = HttpResponse 500 None ''Internal Server Error''
   \<and> snd (generateAudio (exEnv genOk None ttsNoTwo gridOk) True False [] (utf16 ''Two.''))
       = Resolved (Some ''webspeech://current'')
   \<and> snd (generateAudio (exEnv genOk None ttsNoTwo gridOk) True True [] (utf16 ''Two.''))
       = Resolved None
   \<and> snd (generateAudio (exEnv genOk None ttsNoTwo gridOk) False False [] (utf16 ''Two.''))
       = Resolved None
   \<and> fetchTts (exEnv genOk None ttsDown gridOk) [] (utf16 ''Two.'')
       = NetworkError ''Failed to fetch''
   \<and> snd (generateAudio (exEnv genOk None ttsDown gridOk) True False [] (utf16 ''Two.''))
       = Resolved (Some ''webspeech://current'')
   \<and> \<not> list_all isSpace (utf16 ''One.'')
   \<and> fetchTts (exEnv genOk None ttsNoTwo gridOk) [] (utf16 ''One.'')
       = HttpResponse 200 (Some ''audio/mpeg'') ''One.''
   \<and> strIncludes ''audio/mpeg'' ''audio/''
   \<and> snd (generateAudio (exEnv genOk None ttsNoTwo gridOk) True False [] (utf16 ''One.''))
       = Resolved (Some (''blob:'' @ ''One.''))"
proof -
  have blank: "list_all isSpace [0x00A0, 0x0020, 0x3000, 0x000A]" by code_simp
  have words: "\<not> list_all isSpace (utf16 ''Two.'')" by code_simp
  have failed: "fetchTts (exEnv genOk None ttsNoTwo gridOk) [] (utf16 ''Two.'')
       = HttpResponse 500 None ''Internal Server Error''"
    by code_simp
  have down: "fetchTts (exEnv genOk None ttsDown gridOk) [] (utf16 ''Two.'')
       = NetworkError ''Failed to fetch''"
    by code_simp
  have heard: "\<not> list_all isSpace (utf16 ''One.'')" by code_simp
  have reply: "fetchTts (exEnv genOk None ttsNoTwo gridOk) [] (utf16 ''One.'')
       = HttpResponse 200 (Some ''audio/mpeg'') ''One.''"
    by code_simp
  have audio: "strIncludes ''audio/mpeg'' ''audio/''" by code_simp
  from blank
    generateAudio_absorbs_failure[of "exEnv genOk None ttsAudio gridOk" True False "[]"
      "[0x00A0, 0x0020, 0x3000, 0x000A]"]
  have a: "generateAudio (exEnv genOk None ttsAudio gridOk) True False []
             [0x00A0, 0x0020, 0x3000, 0x000A] = ([], Resolved None)"
    by blast
  from words
    generateAudio_absorbs_failure[of "exEnv genOk None ttsNoTwo gridOk" True False "[]"
      "utf16 ''Two.''"]
  have b: "fst (generateAudio (exEnv genOk None ttsNoTwo gridOk) True False [] (utf16 ''Two.''))
       = [Call (FetchTts (utf16 ''Two.''))]"
    by simp
  from words failed
    generateAudio_absorbs_failure[of "exEnv genOk None ttsNoTwo gridOk" True False "[]"
      "utf16 ''Two.''"]
  have c: "snd (generateAudio (exEnv genOk None ttsNoTwo gridOk) True False [] (utf16 ''Two.''))
       = Resolved (Some ''webspeech://current'')"
    by simp
  from words failed
    generateAudio_absorbs_failure[of "exEnv genOk None ttsNoTwo gridOk" True True "[]"
      "utf16 ''Two.''"]
  have d: "snd (generateAudio (exEnv genOk None ttsNoTwo gridOk) True True [] (utf16 ''Two.''))
       = Resolved None"
    by simp
  from words failed
    generateAudio_absorbs_failure[of "exEnv genOk None ttsNoTwo gridOk" False False "[]"
      "utf16 ''Two.''"]
  have e: "snd (generateAudio (exEnv genOk None ttsNoTwo gridOk) False False [] (utf16 ''Two.''))
       = Resolved None"
    by simp
  from words down
    generateAudio_absorbs_failure[of "exEnv genOk None ttsDown gridOk" True False "[]"
      "utf16 ''Two.''"]
  have g: "snd (generateAudio (exEnv genOk None ttsDown gridOk) True False [] (utf16 ''Two.''))
       = Resolved (Some ''webspeech://current'')"
    by simp
  from heard reply audio
    generateAudio_absorbs_failure[of "exEnv genOk None ttsNoTwo gridOk" True False "[]"
      "utf16 ''One.''"]
  have f: "snd (generateAudio (exEnv genOk None ttsNoTwo gridOk) True False [] (utf16 ''One.''))
       = Resolved (Some (''blob:'' @ ''One.''))"
    by simp
  from blank a words b failed c d e down g heard reply audio f show ?thesis by (intro conjI)
qed

section \<open>Starting a new comic\<close>

text \<open>
  Claim C10. The handler of "Start a New Comic" puts every field of the application
  state back to its initial value and stops nothing: the audio elements that were
  playing are still playing, the utterance queue and the pending timers are as before,
  and no element is referred to by the state any more.
\<close>

theorem startOver_resets_without_stopping:
  "state (startOver b) = initState
   \<and> step (state (startOver b)) = Input
   \<and> currentPanel (state (startOver b)) = 0
   \<and> isPlaying (state (startOver b)) = False
   \<and> currentAudio (state (startOver b)) = None
   \<and> panelImages (state (startOver b)) = []
   \<and> panelAudio (state (startOver b)) = []
   \<and> storyboard (state (startOver b)) = None
   \<and> drawing (userInput (state (startOver b))) = None
   \<and> audioPlaying (startOver b) = audioPlaying b
   \<and> audioElements (startOver b) = audioElements b
   \<and> speechQueue (startOver b) = speechQueue b
   \<and> playTimers (startOver b) = playTimers b"
  by (simp add: startOver_def render_def USE_REACT_UI_def initState_def truthy_def)

theorem startOver_resets_without_stopping_witness:
  "audioPlaying (finalView [Some ''blob:a'', None, Some ''blob:c'']) = [0]
   \<and> audioPlaying (startOver (finalView [Some ''blob:a'', None, Some ''blob:c''])) = [0]
   \<and> currentAudio (state (startOver (finalView [Some ''blob:a'', None, Some ''blob:c''])))
       = None"
proof -
  have playing: "audioPlaying (finalView [Some ''blob:a'', None, Some ''blob:c'']) = [0]"
    by code_simp
  from startOver_resets_without_stopping[of "finalView [Some ''blob:a'', None, Some ''blob:c'']"]
  have same: "audioPlaying (startOver (finalView [Some ''blob:a'', None, Some ''blob:c'']))
                = audioPlaying (finalView [Some ''blob:a'', None, Some ''blob:c''])"
    and dropped: "currentAudio (state (startOver (finalView [Some ''blob:a'', None, Some ''blob:c''])))
                = None"
    by blast+
  from playing same dropped show ?thesis by simp
qed

section \<open>The automatic advance\<close>














section \<open>One audio handle at a time\<close>

text \<open>
  Claim C2 at a failing input. The first panel is narrated by on-device speech, the
  second by a remote audio file. The final view starts the utterance; once it speaks,
  \<^verbatim>\<open>nextPanel\<close> finds no current audio element to pause, never cancels the utterance,
  and starts the audio element of the second panel: the utterance \<open>One.\<close> and the
  element 0 are active together.
\<close>

theorem next_leaves_speech_running:
  "playback (run [UtterStart, Next]
       (finalView [Some ''webspeech://current'', Some ''blob:b'', None]))
     = (1, True, Some 0, [0], [utf16 ''One.''], 0, [0])
   \<and> activeHandles (run [UtterStart, Next]
       (finalView [Some ''webspeech://current'', Some ''blob:b'', None])) = 2"
  by code_simp

section \<open>Pausing\<close>

text \<open>
  Claim C9 at failing inputs. With the first panel's audio element playing,
  \<^verbatim>\<open>pauseAudio\<close> pauses element 0, and the rendering that its own \<^verbatim>\<open>setState\<close> runs
  starts a new element for the same panel: after one pause element 1 is current and
  playing, after two pauses element 2 is. With an utterance being spoken,
  \<^verbatim>\<open>pauseAudio\<close> cancels it and leaves the state marked as playing.
\<close>

theorem pause_starts_a_new_element:
  "playback (run [AudioPlay 0] (finalView [Some ''blob:a'', None, Some ''blob:c'']))
     = (0, True, Some 0, [0], [], 0, [])
   \<and> playback (run [AudioPlay 0, Pause] (finalView [Some ''blob:a'', None, Some ''blob:c'']))
     = (0, False, Some 1, [1], [], 0, [1])
   \<and> playback (run [AudioPlay 0, Pause, Pause]
         (finalView [Some ''blob:a'', None, Some ''blob:c'']))
     = (0, False, Some 2, [2], [], 0, [1, 2])
   \<and> playback (run [UtterStart, Pause]
         (finalView [Some ''webspeech://current'', Some ''blob:b'', None]))
     = (0, True, None, [], [], 0, [])"
  by code_simp

section \<open>A failed layout call in the earlier revision\<close>

text \<open>
  Claim C6 at a failing input. All three panels are illustrated and narration has been
  attempted; the grid proxy answers with status 500. The error thrown by
  \<^verbatim>\<open>generateComicLayout\<close> reaches the \<^verbatim>\<open>catch\<close> block of the handler: the run ends on
  the input screen with the error shown and no final image, not in the final view.
\<close>

theorem layout_failure_returns_to_input:
  "pipeline_p2 (handlePlanAndRenderComic_p2
       (exEnv genOk (Some exStoryboard) ttsNoTwo gridDown) exBrowser_p2)
     = (Input, Some ''Fal grid 500'', [Some exImage, Some exImage, Some exImage], None)"
  by code_simp

section \<open>The illustration loop\<close>

lemma renderPanel_log:
  "fst (renderPanel E h p refs sty) = h @ [Call (panelRequest E p refs sty)]"
  by (simp add: renderPanel_def callGenerateContent_def split: outcome.splits)



lemma storePanelImage_fields:
  "step (state (storePanelImage i img b)) = step (state b)"
  "userInput (state (storePanelImage i img b)) = userInput (state b)"
  "characterCard (state (storePanelImage i img b)) = characterCard (state b)"
  "storyboard (state (storePanelImage i img b)) = storyboard (state b)"
  "panelAudio (state (storePanelImage i img b)) = panelAudio (state b)"
  "error (state (storePanelImage i img b)) = error (state b)"
  "speechSynthesisInWindow (storePanelImage i img b) = speechSynthesisInWindow b"
  "utteranceThrows (storePanelImage i img b) = utteranceThrows b"
  "panelImages (state (storePanelImage i img b)) = setAt (panelImages (state b)) i img"
  "log (storePanelImage i img b) = log b @ [Stored i img]"
  by (simp_all add: storePanelImage_def setState_fields setState_frame)

text \<open>One turn of the loop, by the result of \<^verbatim>\<open>renderPanel\<close>.\<close>

lemma illustratePanels_Cons_Rejected:
  assumes "snd (renderPanel E (log b) (prompt p) (characterCard (state b))
                  (style (userInput (state b)))) = Rejected e"
  shows "illustratePanels E (p # ps) i b
     = (Some e, b\<lparr>log := log b @ [Call (panelRequest E (prompt p) (characterCard (state b))
                                          (style (userInput (state b))))]\<rparr>)"
proof -
  obtain h r where hr: "renderPanel E (log b) (prompt p) (characterCard (state b))
                  (style (userInput (state b))) = (h, r)"
    by (cases "renderPanel E (log b) (prompt p) (characterCard (state b))
                  (style (userInput (state b)))") blast
  with assms renderPanel_log[of E "log b" "prompt p" "characterCard (state b)"
      "style (userInput (state b))"]
  show ?thesis by simp
qed

lemma illustratePanels_Cons_Resolved:
  assumes "snd (renderPanel E (log b) (prompt p) (characterCard (state b))
                  (style (userInput (state b)))) = Resolved img"
  shows "illustratePanels E (p # ps) i b
     = illustratePanels E ps (i + 1)
         (storePanelImage i img
            (b\<lparr>log := log b @ [Call (panelRequest E (prompt p) (characterCard (state b))
                                         (style (userInput (state b))))]\<rparr>))"
proof -
  obtain h r where hr: "renderPanel E (log b) (prompt p) (characterCard (state b))
                  (style (userInput (state b))) = (h, r)"
    by (cases "renderPanel E (log b) (prompt p) (characterCard (state b))
                  (style (userInput (state b)))") blast
  with assms renderPanel_log[of E "log b" "prompt p" "characterCard (state b)"
      "style (userInput (state b))"]
  show ?thesis by simp
qed

lemma illustratePanels_fields:
  "illustratePanels E ps i b = (r, b') \<Longrightarrow>
   step (state b') = step (state b) \<and> userInput (state b') = userInput (state b)
   \<and> characterCard (state b') = characterCard (state b)
   \<and> storyboard (state b') = storyboard (state b)
   \<and> panelAudio (state b') = panelAudio (state b)
   \<and> error (state b') = error (state b)
   \<and> speechSynthesisInWindow b' = speechSynthesisInWindow b
   \<and> utteranceThrows b' = utteranceThrows b"
proof (induction ps arbitrary: i b)
  case Nil
  then show ?case by simp
next
  case (Cons p ps)
  show ?case
  proof (cases "snd (renderPanel E (log b) (prompt p) (characterCard (state b))
                  (style (userInput (state b))))")
    case (Rejected e)
    from Cons.prems show ?thesis
      unfolding illustratePanels_Cons_Rejected[OF Rejected] by auto
  next
    case (Resolved img)
    from Cons.prems have "illustratePanels E ps (i + 1)
         (storePanelImage i img
            (b\<lparr>log := log b @ [Call (panelRequest E (prompt p) (characterCard (state b))
                                         (style (userInput (state b))))]\<rparr>)) = (r, b')"
      unfolding illustratePanels_Cons_Resolved[OF Resolved] .
    from Cons.IH[OF this] show ?thesis by (simp add: storePanelImage_fields)
  qed
qed

lemma length_setAt: "length (setAt xs i v) = max (length xs) (i + 1)"
  by (auto simp: setAt_def)



lemma illustratePanels_length:
  "illustratePanels E ps i b = (None, b') \<Longrightarrow> i \<le> length (panelImages (state b)) \<Longrightarrow>
   length (panelImages (state b')) = max (length (panelImages (state b))) (i + length ps)"
proof (induction ps arbitrary: i b)
  case Nil
  then show ?case by simp
next
  case (Cons p ps)
  show ?case
  proof (cases "snd (renderPanel E (log b) (prompt p) (characterCard (state b))
                  (style (userInput (state b))))")
    case (Rejected e)
    from Cons.prems(1) show ?thesis
      unfolding illustratePanels_Cons_Rejected[OF Rejected] by simp
  next
    case (Resolved img)
    let ?b = "storePanelImage i img
            (b\<lparr>log := log b @ [Call (panelRequest E (prompt p) (characterCard (state b))
                                         (style (userInput (state b))))]\<rparr>)"
    from Cons.prems(1) have run: "illustratePanels E ps (i + 1) ?b = (None, b')"
      unfolding illustratePanels_Cons_Resolved[OF Resolved] .
    have len: "length (panelImages (state ?b)) = max (length (panelImages (state b))) (i + 1)"
      by (simp add: storePanelImage_fields length_setAt)
    with Cons.prems(2) have "i + 1 \<le> length (panelImages (state ?b))" by simp
    from Cons.IH[OF run this] len show ?thesis by simp
  qed
qed






section \<open>Character card\<close>









section \<open>Planning failure\<close>

lemma comicErrorMessage_plan:
  "comicErrorMessage
     ''The AI failed to create a valid story plan. Please try a different story.''
   = ''Comic Generation Error: The AI failed to create a valid story plan. Please try a different story.''"
  by code_simp

text \<open>
  Claim C5, as the code has it. When the planning call returns text that
  \<^verbatim>\<open>JSON.parse\<close> rejects, \<^verbatim>\<open>handlePlanAndRenderComic\<close> ends on the input step with
  the message of the planning error, the storyboard is the one from before the call,
  the planning request is the only request of the run, and \<^verbatim>\<open>panelImages\<close> holds as
  many empty slots as the user asked panels for: the slots are allocated from the
  user's panel count before the planning call.
\<close>

theorem planning_failure_keeps_preallocated_slots:
  assumes "generateText E (log b)
             (planRequest E (story (userInput (state b))) (panelCount (userInput (state b))))
           = Resolved txt"
    and "jsonParse E txt = None"
  shows "step (state (handlePlanAndRenderComic E b)) = Input
    \<and> error (state (handlePlanAndRenderComic E b))
        = Some ''Comic Generation Error: The AI failed to create a valid story plan. Please try a different story.''
    \<and> panelImages (state (handlePlanAndRenderComic E b))
        = replicate (panelCount (userInput (state b))) None
    \<and> storyboard (state (handlePlanAndRenderComic E b)) = storyboard (state b)
    \<and> log (handlePlanAndRenderComic E b)
        = log b @ [Call (planRequest E (story (userInput (state b)))
                           (panelCount (userInput (state b))))]"
  using assms
  by (simp add: handlePlanAndRenderComic_def comicTry_def Let_def planStoryboard_def
        callGenerateText_def setState_fields setState_frame comicErrorMessage_plan)

theorem planning_failure_keeps_preallocated_slots_witness:
  "generateText (exEnv genOk None ttsDown gridOk) (log exBrowser)
     (planRequest (exEnv genOk None ttsDown gridOk) (story (userInput (state exBrowser)))
        (panelCount (userInput (state exBrowser)))) = Resolved ''reply''
   \<and> jsonParse (exEnv genOk None ttsDown gridOk) ''reply'' = None
   \<and> step (state (handlePlanAndRenderComic (exEnv genOk None ttsDown gridOk) exBrowser)) = Input
   \<and> panelImages (state (handlePlanAndRenderComic (exEnv genOk None ttsDown gridOk) exBrowser))
       = replicate (panelCount (userInput (state exBrowser))) None"
proof -
  have reply: "generateText (exEnv genOk None ttsDown gridOk) (log exBrowser)
     (planRequest (exEnv genOk None ttsDown gridOk) (story (userInput (state exBrowser)))
        (panelCount (userInput (state exBrowser)))) = Resolved ''reply''"
    by (simp add: exEnv_def)
  have parse: "jsonParse (exEnv genOk None ttsDown gridOk) ''reply'' = None"
    by (simp add: exEnv_def)
  from planning_failure_keeps_preallocated_slots[OF reply parse] reply parse
  show ?thesis by blast
qed

text \<open>
  The claim as the specification states it fails: on a fresh state with four panels
  asked for, a planning reply that cannot be parsed leaves four allocated slots in
  \<^verbatim>\<open>panelImages\<close>, with no storyboard.
\<close>

theorem planning_failure_leaves_four_slots:
  "pipeline (handlePlanAndRenderComic (exEnv genOk None ttsDown gridOk) exBrowser)
     = (Input,
        Some ''Comic Generation Error: The AI failed to create a valid story plan. Please try a different story.'',
        [None, None, None, None], [], None)"
  by code_simp


section \<open>Lengths after a completed run\<close>

lemma generateAudio_resolves: "\<exists>r. snd (generateAudio E sa ct h t) = Resolved r"
  by (simp add: generateAudio_def case_prod_unfold split: outcome.splits)

lemma audioPromises_resolve:
  "\<exists>rs. promiseAll (snd (audioPromises E sa ct h ts)) = Resolved rs \<and> length rs = length ts"
proof (induction ts arbitrary: h)
  case Nil
  show ?case by simp
next
  case (Cons t ts)
  from Cons.IH[of "fst (generateAudio E sa ct h t)"] obtain rs where
    rs: "promiseAll (snd (audioPromises E sa ct (fst (generateAudio E sa ct h t)) ts))
           = Resolved rs"
      "length rs = length ts"
    by blast
  obtain r where r: "snd (generateAudio E sa ct h t) = Resolved r"
    using generateAudio_resolves by blast
  from rs r show ?case by (simp add: case_prod_unfold)
qed

text \<open>
  Claim C3, as the code has it. When a run of \<^verbatim>\<open>handlePlanAndRenderComic\<close> reaches
  the final view, the state holds a storyboard, \<^verbatim>\<open>panelAudio\<close> has one entry per panel
  of the storyboard, and \<^verbatim>\<open>panelImages\<close> has as many slots as the larger of the user's
  panel count and the number of panels of the storyboard.
\<close>

theorem completed_run_lengths:
  assumes "step (state (handlePlanAndRenderComic E b)) = FinalComic"
  shows "\<exists>sb. storyboard (state (handlePlanAndRenderComic E b)) = Some sb
    \<and> length (panelAudio (state (handlePlanAndRenderComic E b))) = length (panels sb)
    \<and> length (panelImages (state (handlePlanAndRenderComic E b)))
        = max (panelCount (userInput (state b))) (length (panels sb))"
proof -
  let ?n = "panelCount (userInput (state b))"
  let ?b0 = "setState (\<lambda>s. s\<lparr>isLoading := True,
                 loadingMessage := ''Planning your epic story...'', step := GeneratingComic,
                 panelImages := replicate (panelCount (userInput s)) None\<rparr>) b"
  have b0: "userInput (state ?b0) = userInput (state b)"
    "panelImages (state ?b0) = replicate ?n None"
    by (simp_all add: setState_fields)
  obtain h1 plan where plan: "planStoryboard E (log ?b0) (story (userInput (state ?b0)))
                  (panelCount (userInput (state ?b0))) = (h1, plan)"
    by (cases "planStoryboard E (log ?b0) (story (userInput (state ?b0)))
                  (panelCount (userInput (state ?b0)))") blast
  show ?thesis
  proof (cases plan)
    case (Rejected e)
    with plan have "step (state (handlePlanAndRenderComic E b)) = Input"
      by (simp add: handlePlanAndRenderComic_def comicTry_def Let_def setState_fields)
    with assms show ?thesis by simp
  next
    case (Resolved sb)
    let ?b2 = "setState (\<lambda>s. s\<lparr>storyboard := Some sb,
                   loadingMessage := ''Illustrating your comic...''\<rparr>) (?b0\<lparr>log := h1\<rparr>)"
    have b2: "panelImages (state ?b2) = replicate ?n None" "storyboard (state ?b2) = Some sb"
      by (simp_all add: setState_fields)
    obtain r b3 where loop: "illustratePanels E (panels sb) 0 ?b2 = (r, b3)"
      by (cases "illustratePanels E (panels sb) 0 ?b2") blast
    show ?thesis
    proof (cases r)
      case (Some e)
      with plan Resolved loop have "step (state (handlePlanAndRenderComic E b)) = Input"
        by (simp add: handlePlanAndRenderComic_def comicTry_def Let_def setState_fields)
      with assms show ?thesis by simp
    next
      case None
      from illustratePanels_length[OF loop[unfolded None]] b2(1)
      have len: "length (panelImages (state b3)) = max ?n (length (panels sb))"
        by simp
      from illustratePanels_fields[OF loop] b2(2)
      have sb3: "storyboard (state b3) = Some sb" by simp
      let ?b4 = "setState (\<lambda>s. s\<lparr>isLoading := True,
                     loadingMessage := ''Generating audio narration...''\<rparr>) b3"
      let ?texts = "map panelText (panels sb)"
      obtain h5 promises where
        calls: "audioPromises E (speechSynthesisInWindow ?b4) (utteranceThrows ?b4) (log ?b4)
                  ?texts = (h5, promises)"
        by (cases "audioPromises E (speechSynthesisInWindow ?b4) (utteranceThrows ?b4) (log ?b4)
                  ?texts") blast
      obtain audio where
        audio: "promiseAll promises = Resolved audio" "length audio = length ?texts"
        using audioPromises_resolve[of E "speechSynthesisInWindow ?b4" "utteranceThrows ?b4"
            "log ?b4" ?texts]
        unfolding calls by auto
      from plan Resolved loop None calls audio(1)
      have fields: "storyboard (state (handlePlanAndRenderComic E b)) = storyboard (state b3)
        \<and> panelAudio (state (handlePlanAndRenderComic E b)) = audio
        \<and> panelImages (state (handlePlanAndRenderComic E b)) = panelImages (state b3)"
        by (simp add: handlePlanAndRenderComic_def comicTry_def Let_def setState_fields)
      with sb3 len audio(2) show ?thesis by simp
    qed
  qed
qed

theorem completed_run_lengths_witness:
  "step (state (handlePlanAndRenderComic (exEnv genOk (Some exStoryboard) ttsNoTwo gridOk)
                  exBrowser)) = FinalComic
   \<and> (\<exists>sb. storyboard (state (handlePlanAndRenderComic
               (exEnv genOk (Some exStoryboard) ttsNoTwo gridOk) exBrowser)) = Some sb
        \<and> length (panelAudio (state (handlePlanAndRenderComic
               (exEnv genOk (Some exStoryboard) ttsNoTwo gridOk) exBrowser)))
            = length (panels sb)
        \<and> length (panelImages (state (handlePlanAndRenderComic
               (exEnv genOk (Some exStoryboard) ttsNoTwo gridOk) exBrowser)))
            = max (panelCount (userInput (state exBrowser))) (length (panels sb)))"
proof -
  have finished: "step (state (handlePlanAndRenderComic
                (exEnv genOk (Some exStoryboard) ttsNoTwo gridOk) exBrowser)) = FinalComic"
    by code_simp
  from finished completed_run_lengths[OF finished] show ?thesis by (rule conjI)
qed

text \<open>
  The claim as the specification states it fails: the user asks for four panels, the
  planning step returns three, every call succeeds or falls back, and the run reaches
  the final view with four image slots (the last one empty), three narration handles
  and a storyboard of three panels.
\<close>

theorem completed_run_with_unequal_lengths:
  "pipeline (handlePlanAndRenderComic (exEnv genOk (Some exStoryboard) ttsNoTwo gridOk)
               exBrowser)
     = (FinalComic, None, [Some exImage, Some exImage, Some exImage, None],
        [Some ''blob:One.'', Some ''webspeech://current'', Some ''blob:Three.''], Some 3)"
  by code_simp

end
